theory Spec2Isabelle
  imports Main "HOL-Library.Word" "HOL-Library.AList"
begin

unbundle bit_operations_syntax

section \<open>JavaScript values used by log.js\<close>

text \<open>
  A JavaScript string is modelled as a HOL \<^typ>\<open>string\<close>: one \<^typ>\<open>char\<close> per UTF-16
  code unit, for code units below 256 (ASCII and Latin-1). \<open>str.length\<close> is
  \<^const>\<open>length\<close> and \<open>str.charCodeAt(i)\<close> is \<open>of_char (str ! i)\<close>.

  A JavaScript number that holds an integer is an \<^typ>\<open>int\<close>. The bitwise operators
  first convert their operands with ToInt32, and \<open>>>> 0\<close> converts with ToUint32; both
  are written out.
\<close>

definition toInt32 :: "int \<Rightarrow> int" where
  "toInt32 x = (let m = x mod 2 ^ 32 in if 2 ^ 31 \<le> m then m - 2 ^ 32 else m)"

definition toUint32 :: "int \<Rightarrow> int" where
  "toUint32 x = x mod 2 ^ 32"

text \<open>\<open>a ^ b\<close> and \<open>a << n\<close> of JavaScript: 32-bit signed results.\<close>

definition js_xor :: "int \<Rightarrow> int \<Rightarrow> int" where
  "js_xor a b = toInt32 a XOR toInt32 b"

definition js_shl :: "int \<Rightarrow> nat \<Rightarrow> int" where
  "js_shl a n = toInt32 (toInt32 a * 2 ^ (n mod 32))"

text \<open>\<open>Number.prototype.toString(36)\<close> on a non-negative integer: digits \<open>0-9a-z\<close>.\<close>

definition digit36 :: "nat \<Rightarrow> char" where
  "digit36 d = (if d < 10 then char_of (48 + d) else char_of (87 + d))"

fun toString36 :: "nat \<Rightarrow> string" where
  "toString36 n =
     (if n < 36 then [digit36 n] else toString36 (n div 36) @ [digit36 (n mod 36)])"

declare toString36.simps [simp del]

definition charCodeAt :: "string \<Rightarrow> nat \<Rightarrow> int" where
  "charCodeAt str i = int (of_char (str ! i))"

section \<open>fnv32a\<close>

text \<open>
  The body of the \<open>for\<close> loop of \<open>fnv32a\<close>:
  \<^verbatim>\<open>hash ^= str.charCodeAt(i);\<close>
  \<^verbatim>\<open>hash += (hash << 1) + (hash << 4) + (hash << 7) + (hash << 8) + (hash << 24);\<close>
  The sum is an addition of JavaScript numbers, so \<open>hash\<close> may leave the 32-bit range
  until the next \<open>^=\<close> or the final \<open>>>> 0\<close> brings it back.
\<close>

definition fnv_step :: "int \<Rightarrow> int \<Rightarrow> int" where
  "fnv_step hash c =
     (let h = js_xor hash c
      in h + (js_shl h 1 + js_shl h 4 + js_shl h 7 + js_shl h 8 + js_shl h 24))"

function fnv_loop :: "string \<Rightarrow> nat \<Rightarrow> int \<Rightarrow> int" where
  "fnv_loop str i hash =
     (if i < length str then fnv_loop str (i + 1) (fnv_step hash (charCodeAt str i))
      else hash)"
  by pat_completeness auto
termination
  by (relation "measure (\<lambda>(str, i, hash). length str - i)") auto

declare fnv_loop.simps [simp del]

definition fnv32a :: "string \<Rightarrow> string" where
  "fnv32a str = toString36 (nat (toUint32 (fnv_loop str 0 0x811c9dc5)))"

text \<open>
  The reference the specification names: 32-bit FNV-1a, seeded with \<open>0x811c9dc5\<close>, each
  character code folded in by XOR and a multiplication by the FNV prime \<open>0x01000193\<close>
  modulo \<open>2 ^ 32\<close>.
\<close>

definition fnv1a_reference :: "string \<Rightarrow> 32 word" where
  "fnv1a_reference str =
     foldl (\<lambda>h c. (h XOR of_nat (of_char c)) * 0x01000193) 0x811c9dc5 str"

text \<open>Reading a base-36 numeral back, to state what \<open>toString36\<close> renders.\<close>

definition value36 :: "char \<Rightarrow> nat" where
  "value36 c = (if of_char c < (58::nat) then of_char c - 48 else of_char c - 87)"

definition parseBase36 :: "string \<Rightarrow> nat" where
  "parseBase36 s = foldl (\<lambda>a c. 36 * a + value36 c) 0 s"

text \<open>\<open>Number.prototype.toString()\<close> and \<open>toString(16)\<close> on a non-negative integer.\<close>

fun toString10 :: "nat \<Rightarrow> string" where
  "toString10 n =
     (if n < 10 then [digit36 n] else toString10 (n div 10) @ [digit36 (n mod 10)])"

declare toString10.simps [simp del]

fun toString16 :: "nat \<Rightarrow> string" where
  "toString16 n =
     (if n < 16 then [digit36 n] else toString16 (n div 16) @ [digit36 (n mod 16)])"

declare toString16.simps [simp del]

section \<open>Strings: toLowerCase, trim, join\<close>

text \<open>
  \<open>String.prototype.toLowerCase\<close> on code units below 256: \<open>A-Z\<close> and the Latin-1
  capitals \<open>U+00C0 .. U+00DE\<close> (without the multiplication sign \<open>U+00D7\<close>) move up by 32.
\<close>

definition lowerChar :: "char \<Rightarrow> char" where
  "lowerChar c =
     (let n = of_char c :: nat
      in if (65 \<le> n \<and> n \<le> 90) \<or> (192 \<le> n \<and> n \<le> 222 \<and> n \<noteq> 215)
         then char_of (n + 32) else c)"

definition toLowerCase :: "string \<Rightarrow> string" where
  "toLowerCase s = map lowerChar s"

text \<open>
  \<open>String.prototype.trim\<close> strips white space and line terminators from both ends;
  below 256 these are TAB, LF, VT, FF, CR, SPACE and NBSP.
\<close>

definition isWhiteSpace :: "char \<Rightarrow> bool" where
  "isWhiteSpace c = (of_char c \<in> {9, 10, 11, 12, 13, 32, 160 :: nat})"

definition trim :: "string \<Rightarrow> string" where
  "trim s = rev (dropWhile isWhiteSpace (rev (dropWhile isWhiteSpace s)))"

fun join :: "string \<Rightarrow> string list \<Rightarrow> string" where
  "join sep [] = []"
| "join sep [x] = x"
| "join sep (x # y # ys) = x @ sep @ join sep (y # ys)"

section \<open>Elements and generateElementSignature\<close>

datatype js_error = TypeError | ReferenceError

text \<open>
  A property that \<open>log.js\<close> tests for truthiness and interpolates into a template
  string is a string or an object. A string is truthy when it is not empty and
  interpolates as itself; an object is always truthy and interpolates as the text its
  \<open>toString\<close> gives, carried by \<open>PObj\<close>. The \<open>className\<close> of an SVG element is such an
  object, an \<open>SVGAnimatedString\<close>, whose text is \<open>[object SVGAnimatedString]\<close>.
\<close>

datatype js_prop = PStr string | PObj string

definition truthy :: "js_prop \<Rightarrow> bool" where
  "truthy p = (case p of PStr s \<Rightarrow> s \<noteq> [] | PObj r \<Rightarrow> True)"

definition interpolate :: "js_prop \<Rightarrow> string" where
  "interpolate p = (case p of PStr s \<Rightarrow> s | PObj r \<Rightarrow> r)"

text \<open>
  What \<open>log.js\<close> reads and writes of \<open>e.target\<close>. An element has a tag name, the
  properties \<open>id\<close> and \<open>className\<close>, its attributes (behind \<open>getAttribute\<close>,
  \<open>hasAttribute\<close> and \<open>setAttribute\<close>) and its text content. Any other node (the
  document, a text node; \<open>OtherNode\<close> carries its node name) has no \<open>tagName\<close> and
  none of the three attribute methods, so calling one of them throws a TypeError.
\<close>

record element =
  tagName :: string
  elem_id :: js_prop
  className :: js_prop
  attributes :: "string \<rightharpoonup> string"
  textContent :: string

datatype node = ElementNode element | OtherNode string

definition getAttribute :: "element \<Rightarrow> string \<Rightarrow> string option" where
  "getAttribute el name = attributes el name"

definition hasAttribute :: "node \<Rightarrow> string \<Rightarrow> js_error + bool" where
  "hasAttribute n name =
     (case n of
        OtherNode nodeName \<Rightarrow> Inl TypeError
      | ElementNode el \<Rightarrow> Inr (attributes el name \<noteq> None))"

definition setAttribute :: "node \<Rightarrow> string \<Rightarrow> string \<Rightarrow> js_error + node" where
  "setAttribute n name v =
     (case n of
        OtherNode nodeName \<Rightarrow> Inl TypeError
      | ElementNode el \<Rightarrow> Inr (ElementNode (el\<lparr>attributes := (attributes el)(name \<mapsto> v)\<rparr>)))"

text \<open>
  \<open>generateElementSignature\<close>. The argument is \<open>None\<close> for a \<open>null\<close> element. Every
  \<open>if (x)\<close> of the source tests truthiness: a string is truthy when it is not empty,
  \<open>null\<close> and \<open>undefined\<close> are falsy, an object is truthy. Only an element gets past
  the test of \<open>tagName\<close>.
\<close>

definition generateElementSignature :: "node option \<Rightarrow> string option" where
  "generateElementSignature element =
     (case element of
        None \<Rightarrow> None
      | Some (OtherNode nodeName) \<Rightarrow> None
      | Some (ElementNode el) \<Rightarrow>
          if tagName el = [] then None
          else
            let parts = [toLowerCase (tagName el)];
                parts = (if truthy (elem_id el) then parts @ [''id:'' @ interpolate (elem_id el)]
                         else parts);
                parts = (if truthy (className el)
                         then parts @ [''class:'' @ interpolate (className el)]
                         else parts);
                nameAttr = getAttribute el ''name'';
                parts = (case nameAttr of
                           Some v \<Rightarrow> if v \<noteq> [] then parts @ [''name:'' @ v] else parts
                         | None \<Rightarrow> parts);
                typeAttr = getAttribute el ''type'';
                parts = (case typeAttr of
                           Some v \<Rightarrow> if v \<noteq> [] then parts @ [''type:'' @ v] else parts
                         | None \<Rightarrow> parts);
                text = trim (textContent el);
                parts = (if text \<noteq> [] \<and> length text < 50 then parts @ [''text:'' @ text]
                         else parts)
            in Some (join ''|'' parts))"

text \<open>
  The token sequence in the specification's words, from the tag name, the id, the class
  name, the name and type attributes and the text content: the lower-cased tag name,
  then one token for each of id, class, name and type that is present with a value,
  then the text token when the trimmed text is non-empty and shorter than 50
  characters.
\<close>

definition prefixed_token :: "string \<Rightarrow> string option \<Rightarrow> string list" where
  "prefixed_token prefix v =
     (case v of None \<Rightarrow> [] | Some x \<Rightarrow> if x = [] then [] else [prefix @ x])"

definition text_token :: "string \<Rightarrow> string list" where
  "text_token t = (if trim t \<noteq> [] \<and> length (trim t) < 50 then [''text:'' @ trim t] else [])"

definition signature_tokens ::
  "string \<Rightarrow> string \<Rightarrow> string \<Rightarrow> string option \<Rightarrow> string option \<Rightarrow> string \<Rightarrow> string list"
  where
  "signature_tokens tag ident cls nameAttr typeAttr txt =
     [toLowerCase tag]
     @ prefixed_token ''id:'' (Some ident)
     @ prefixed_token ''class:'' (Some cls)
     @ prefixed_token ''name:'' nameAttr
     @ prefixed_token ''type:'' typeAttr
     @ text_token txt"

section \<open>The ZenID registry and generateStableZenId\<close>

text \<open>
  \<open>__zenMapping\<close> is the object literal \<open>{}\<close>, so \<open>signature in __zenMapping\<close> and
  \<open>__zenMapping[signature]\<close> also find what the object inherits from
  \<open>Object.prototype\<close>. \<open>own\<close> holds the properties the module has stored;
  \<open>objectPrototypeKeys\<close> are the names every object literal inherits. For an inherited
  name the entry read is a built-in object whose \<open>count\<close> is \<open>undefined\<close> (later
  \<open>NaN\<close>): \<open>entry.count === 1\<close> is false, \<open>entry.count + 1\<close> is \<open>NaN\<close>, and
  \<open>entry.count++\<close> stores \<open>NaN\<close> on that built-in object, not in the registry. For
  \<open>__proto__\<close> the built-in object is \<open>Object.prototype\<close> itself, which from then on
  (\<open>protoCount\<close>) gives every object an inherited property \<open>count\<close> with the number
  \<open>NaN\<close> as its value; \<open>entry.count++\<close> on that number throws in strict mode.
\<close>

record zen_entry =
  entry_id :: string
  entry_count :: nat

record registry =
  own :: "string \<rightharpoonup> zen_entry"
  protoCount :: bool

definition objectPrototypeKeys :: "string list" where
  "objectPrototypeKeys =
     [''constructor'', ''__defineGetter__'', ''__defineSetter__'', ''hasOwnProperty'',
      ''__lookupGetter__'', ''__lookupSetter__'', ''isPrototypeOf'',
      ''propertyIsEnumerable'', ''toString'', ''valueOf'', ''__proto__'',
      ''toLocaleString'']"

definition empty_registry :: registry where
  "empty_registry = \<lparr>own = Map.empty, protoCount = False\<rparr>"

definition generateStableZenId ::
  "node option \<Rightarrow> registry \<Rightarrow> js_error + (string option \<times> registry)" where
  "generateStableZenId element reg =
     (case generateElementSignature element of
        None \<Rightarrow> Inr (None, reg)
      | Some signature \<Rightarrow>
          if signature = [] then Inr (None, reg)
          else
            let baseHash = ''zen-'' @ fnv32a signature
            in case own reg signature of
                 Some entry \<Rightarrow>
                   let newId = (if entry_count entry = 1 then baseHash @ ''-2''
                                else baseHash @ ''-'' @ toString10 (entry_count entry + 1))
                   in Inr (Some newId,
                           reg\<lparr>own := (own reg)
                                  (signature \<mapsto> entry\<lparr>entry_count := entry_count entry + 1\<rparr>)\<rparr>)
               | None \<Rightarrow>
                   if signature \<in> set objectPrototypeKeys
                   then Inr (Some (baseHash @ ''-NaN''),
                             reg\<lparr>protoCount := protoCount reg \<or> signature = ''__proto__''\<rparr>)
                   else if protoCount reg \<and> signature = ''count''
                   then Inl TypeError
                   else Inr (Some baseHash,
                             reg\<lparr>own := (own reg)
                                    (signature \<mapsto> \<lparr>entry_id = baseHash, entry_count = 1\<rparr>)\<rparr>))"

text \<open>
  \<open>labelElement\<close> calls \<open>el.hasAttribute\<close> before anything else looks at the node.
\<close>

definition labelElement :: "node \<Rightarrow> registry \<Rightarrow> js_error + (node \<times> registry)" where
  "labelElement el reg =
     (case hasAttribute el ''data-zenid'' of
        Inl err \<Rightarrow> Inl err
      | Inr has \<Rightarrow>
          if \<not> has
          then (case generateStableZenId (Some el) reg of
                  Inl err \<Rightarrow> Inl err
                | Inr (zenId, reg') \<Rightarrow>
                    (case zenId of
                       Some z \<Rightarrow>
                         if z \<noteq> []
                         then (case setAttribute el ''data-zenid'' z of
                                 Inl err \<Rightarrow> Inl err
                               | Inr el' \<Rightarrow> Inr (el', reg'))
                         else Inr (el, reg')
                     | None \<Rightarrow> Inr (el, reg')))
          else Inr (el, reg))"

text \<open>
  Successive requests: \<open>zen_requests reg els\<close> asks for a StableId for each element of
  \<open>els\<close> in turn and returns the ids handed out and the registry left behind.
\<close>

fun zen_requests ::
  "registry \<Rightarrow> node list \<Rightarrow> js_error + (string option list \<times> registry)" where
  "zen_requests reg [] = Inr ([], reg)"
| "zen_requests reg (el # els) =
     (case generateStableZenId (Some el) reg of
        Inl err \<Rightarrow> Inl err
      | Inr (zid, reg') \<Rightarrow>
          (case zen_requests reg' els of
             Inl err \<Rightarrow> Inl err
           | Inr (zids, reg'') \<Rightarrow> Inr (zid # zids, reg'')))"

text \<open>The id the specification promises for the \<open>n\<close>-th request (\<open>n\<close> from 1).\<close>

definition expected_id :: "string \<Rightarrow> nat \<Rightarrow> string" where
  "expected_id h n = (if n = 1 then ''zen-'' @ h else ''zen-'' @ h @ ''-'' @ toString10 n)"

section \<open>The agent's state and its environment\<close>

text \<open>
  Values that occur in event payloads, and objects as association lists from property
  name to value. The object literal \<open>{k1: v1, ..., ...data}\<close> defines its properties
  from left to right; a name defined again keeps its place and takes the new value.
\<close>

datatype jsval =
  JUndefined | JNull | JBool bool | JNum int | JStr string
  | JArr "jsval list" | JObj "(string \<times> jsval) list"

type_synonym jsobject = "(string \<times> jsval) list"

definition spread :: "jsobject \<Rightarrow> jsobject \<Rightarrow> jsobject" where
  "spread obj data = foldl (\<lambda>acc (k, v). AList.update k v acc) obj data"

text \<open>What \<open>trackInternal\<close> reads of \<open>window\<close>, \<open>navigator\<close>, \<open>document\<close> and the clock.\<close>

record page =
  nowISO :: string
  href :: string
  userAgent :: string
  screenWidth :: nat
  screenHeight :: nat
  language :: string
  referrer :: string
  readyState :: string
  title :: string

record config =
  cfg_siteId :: "string option"
  cfg_batchInterval :: "nat option"

definition DEFAULT_CONFIG :: config where
  "DEFAULT_CONFIG = \<lparr>cfg_siteId = Some ''UNKNOWN_SITE'', cfg_batchInterval = Some 5000\<rparr>"

text \<open>\<open>Object.assign({}, a, b)\<close> on configurations: a key of \<open>b\<close> wins over the same key of \<open>a\<close>.\<close>

definition assignConfig :: "config \<Rightarrow> config \<Rightarrow> config" where
  "assignConfig a b =
     \<lparr>cfg_siteId = (case cfg_siteId b of Some v \<Rightarrow> Some v | None \<Rightarrow> cfg_siteId a),
      cfg_batchInterval =
        (case cfg_batchInterval b of Some v \<Rightarrow> Some v | None \<Rightarrow> cfg_batchInterval a)\<rparr>"

text \<open>
  Event listeners. Every call of \<open>attachCoreEventListeners\<close> creates seven new
  closures; a handler is identified by its kind and the number of the call that made it.
\<close>

datatype target = Document | Window

datatype handler_kind =
  ClickHandler | PageLoadHandler | UnloadHandler | ScrollHandler | ResizeHandler
  | VisibilityHandler | ErrorHandler

record listener =
  l_target :: target
  l_event :: string
  l_handler :: "handler_kind \<times> nat"
  l_capture :: bool

text \<open>
  The global \<open>crypto\<close>: not declared at all (reading it throws a ReferenceError),
  declared but \<open>undefined\<close> or \<open>null\<close>, or an object. For an object the first argument
  is what \<open>randomUUID()\<close> returns when that method exists, the second the bytes
  \<open>getRandomValues\<close> writes (by index) when that method exists.
\<close>

datatype crypto_env =
  CryptoUndeclared
  | CryptoNullish
  | CryptoObject "string option" "(nat \<Rightarrow> 8 word) option"

datatype console_entry = Warn string | Log string

text \<open>The body handed to \<open>fetch\<close>: \<open>JSON.stringify\<close> of \<open>{userId, siteId, events}\<close>.\<close>

record request =
  req_userId :: "string option"
  req_siteId :: "string option"
  req_events :: "jsobject list"

text \<open>
  The module's variables (\<open>initialized\<close> to \<open>zenMapping\<close>) and the part of the browser
  they act on: the console, the single \<open>localStorage\<close> key, \<open>crypto\<close>, the listeners
  registered on \<open>document\<close> and \<open>window\<close>, the running interval timers, the requests
  handed to \<open>fetch\<close> and how many of them have not settled yet, and the page.
\<close>

record world =
  initialized :: bool
  siteId :: "string option"
  userId :: "string option"
  config :: config
  eventListeners :: "listener list"
  eventBatch :: "jsobject list"
  batchTimer :: "nat option"
  zenMapping :: registry
  console :: "console_entry list"
  stored_uid :: "string option"
  storageReadable :: bool
  storageWritable :: bool
  crypto :: crypto_env
  domListeners :: "listener list"
  nextClosure :: nat
  timers :: "(nat \<times> nat) list"
  nextTimerId :: nat
  requests :: "request list"
  pending :: nat
  page :: page

definition consoleWarn :: "string \<Rightarrow> world \<Rightarrow> world" where
  "consoleWarn msg w = w\<lparr>console := console w @ [Warn msg]\<rparr>"

definition consoleLog :: "string \<Rightarrow> world \<Rightarrow> world" where
  "consoleLog msg w = w\<lparr>console := console w @ [Log msg]\<rparr>"

section \<open>getOrCreateUserId\<close>

definition padStart2 :: "string \<Rightarrow> string" where
  "padStart2 s = replicate (2 - length s) (CHR ''0'') @ s"

definition substr :: "string \<Rightarrow> nat \<Rightarrow> nat \<Rightarrow> string" where
  "substr s start len = take len (drop start s)"

text \<open>The fallback identifier built from the 16 bytes of the \<open>Uint8Array\<close>.\<close>

definition fallbackId :: "(nat \<Rightarrow> 8 word) \<Rightarrow> string" where
  "fallbackId bytes =
     (let array = map bytes [0..<16];
          hex = concat (map (\<lambda>b. padStart2 (toString16 (unat b))) array)
      in substr hex 0 8 @ ''-'' @ substr hex 8 4 @ ''-'' @ substr hex 12 4 @ ''-''
         @ substr hex 16 4 @ ''-'' @ substr hex 20 12)"

text \<open>
  \<open>getOrCreateUserId\<close>. Both accesses to \<open>localStorage\<close> sit in \<open>try\<close>/\<open>catch\<close>; the
  use of \<open>crypto\<close> does not. The world is returned also when the function throws.
\<close>

definition getOrCreateUserId :: "world \<Rightarrow> (js_error + string) \<times> world" where
  "getOrCreateUserId w =
     (let (existingId, w1) =
            (if storageReadable w then (stored_uid w, w)
             else (None, consoleWarn ''[USERQUERY] localStorage not available. Using in-memory ID.'' w))
      in case (case existingId of Some v \<Rightarrow> if v \<noteq> [] then Some v else None | None \<Rightarrow> None) of
           Some v \<Rightarrow> (Inr v, w1)
         | None \<Rightarrow>
             (case (case crypto w1 of
                      CryptoUndeclared \<Rightarrow> Inl ReferenceError
                    | CryptoNullish \<Rightarrow> Inl TypeError
                    | CryptoObject randomUUID getRandomValues \<Rightarrow>
                        (case randomUUID of
                           Some uuid \<Rightarrow> Inr uuid
                         | None \<Rightarrow>
                             (case getRandomValues of
                                None \<Rightarrow> Inl TypeError
                              | Some bytes \<Rightarrow> Inr (fallbackId bytes)))) of
                Inl err \<Rightarrow> (Inl err, w1)
              | Inr newId \<Rightarrow>
                  (Inr newId,
                   if storageWritable w1 then w1\<lparr>stored_uid := Some newId\<rparr>
                   else consoleWarn ''[USERQUERY] Unable to persist userId to localStorage.'' w1)))"

definition isHexDigit :: "char \<Rightarrow> bool" where
  "isHexDigit c = (c \<in> set ''0123456789abcdef'')"

text \<open>A UUID-shaped string: 8-4-4-4-12 hexadecimal digits separated by hyphens.\<close>

definition uuidShaped :: "string \<Rightarrow> bool" where
  "uuidShaped s =
     (length s = 36
      \<and> list_all isHexDigit (take 8 s) \<and> s ! 8 = CHR ''-''
      \<and> list_all isHexDigit (take 4 (drop 9 s)) \<and> s ! 13 = CHR ''-''
      \<and> list_all isHexDigit (take 4 (drop 14 s)) \<and> s ! 18 = CHR ''-''
      \<and> list_all isHexDigit (take 4 (drop 19 s)) \<and> s ! 23 = CHR ''-''
      \<and> list_all isHexDigit (drop 24 s))"

section \<open>trackInternal and flushEventBatch\<close>

definition trackInternal :: "string \<Rightarrow> jsobject \<Rightarrow> world \<Rightarrow> world" where
  "trackInternal eventName data w =
     (let payload =
            spread
              [(''eventName'', JStr eventName),
               (''timestamp'', JStr (nowISO (page w))),
               (''siteId'', case siteId w of Some v \<Rightarrow> JStr v | None \<Rightarrow> JNull),
               (''userId'', case userId w of Some v \<Rightarrow> JStr v | None \<Rightarrow> JNull),
               (''url'', JStr (href (page w))),
               (''userAgent'', JStr (userAgent (page w))),
               (''screenSize'',
                  JStr (toString10 (screenWidth (page w)) @ ''x''
                        @ toString10 (screenHeight (page w)))),
               (''language'', JStr (language (page w))),
               (''referrer'', JStr (referrer (page w)))]
              data
      in w\<lparr>eventBatch := eventBatch w @ [payload]\<rparr>)"

text \<open>The base context of the specification, before the caller's data is merged in.\<close>

definition base_context :: "string \<Rightarrow> world \<Rightarrow> jsobject" where
  "base_context eventName w =
     [(''eventName'', JStr eventName),
      (''timestamp'', JStr (nowISO (page w))),
      (''siteId'', case siteId w of Some v \<Rightarrow> JStr v | None \<Rightarrow> JNull),
      (''userId'', case userId w of Some v \<Rightarrow> JStr v | None \<Rightarrow> JNull),
      (''url'', JStr (href (page w))),
      (''userAgent'', JStr (userAgent (page w))),
      (''screenSize'',
         JStr (toString10 (screenWidth (page w)) @ ''x'' @ toString10 (screenHeight (page w)))),
      (''language'', JStr (language (page w))),
      (''referrer'', JStr (referrer (page w)))]"

text \<open>
  \<open>flushEventBatch\<close> up to the point where \<open>fetch\<close> has been called and the promise
  is pending. It does not assign \<open>_eventBatch\<close>. The two callbacks of the promise run
  later, as steps of their own: \<open>fetch_then\<close> when a response arrives, \<open>fetch_catch\<close>
  when the request fails.
\<close>

definition flushEventBatch :: "world \<Rightarrow> world" where
  "flushEventBatch w =
     (if length (eventBatch w) = 0 then w
      else
        let eventsPayload =
              \<lparr>req_userId = userId w, req_siteId = siteId w, req_events = eventBatch w\<rparr>
        in w\<lparr>requests := requests w @ [eventsPayload], pending := pending w + 1\<rparr>)"

definition fetch_then :: "bool \<Rightarrow> world \<Rightarrow> world" where
  "fetch_then ok w =
     (let w1 = (if \<not> ok then consoleWarn ''[USERQUERY] Failed to post events. Response status:'' w
                else w)
      in w1\<lparr>eventBatch := []\<rparr>)"

definition fetch_catch :: "world \<Rightarrow> world" where
  "fetch_catch w = (consoleWarn ''[USERQUERY] Error posting events:'' w)\<lparr>eventBatch := []\<rparr>"

text \<open>
  The single-threaded event loop, as far as the buffer is concerned: an event handler
  records an event, a flush is triggered, or a pending delivery settles. A delivery can
  settle only while one is pending.
\<close>

datatype delivery = Response bool | NetworkError

datatype action = Track string jsobject | Flush | Settle delivery

fun step :: "action \<Rightarrow> world \<Rightarrow> world option" where
  "step (Track eventName data) w = Some (trackInternal eventName data w)"
| "step Flush w = Some (flushEventBatch w)"
| "step (Settle d) w =
     (if pending w = 0 then None
      else Some ((case d of Response ok \<Rightarrow> fetch_then ok | NetworkError \<Rightarrow> fetch_catch)
                   (w\<lparr>pending := pending w - 1\<rparr>)))"

fun run :: "action list \<Rightarrow> world \<Rightarrow> world option" where
  "run [] w = Some w"
| "run (a # as) w = (case step a w of None \<Rightarrow> None | Some w' \<Rightarrow> run as w')"

section \<open>init, stop and trackCustom\<close>

text \<open>
  \<open>addEventListener\<close> ignores a listener that is already registered with the same
  type, callback and capture flag; \<open>removeEventListener\<close> removes the one that matches.
\<close>

definition addEventListener :: "listener list \<Rightarrow> listener \<Rightarrow> listener list" where
  "addEventListener registered l = (if l \<in> set registered then registered else registered @ [l])"

definition removeEventListener :: "listener list \<Rightarrow> listener \<Rightarrow> listener list" where
  "removeEventListener registered l = filter (\<lambda>x. x \<noteq> l) registered"

definition coreListeners :: "nat \<Rightarrow> listener list" where
  "coreListeners g =
     [\<lparr>l_target = Document, l_event = ''click'', l_handler = (ClickHandler, g),
        l_capture = False\<rparr>,
      \<lparr>l_target = Window, l_event = ''load'', l_handler = (PageLoadHandler, g),
        l_capture = False\<rparr>,
      \<lparr>l_target = Window, l_event = ''beforeunload'', l_handler = (UnloadHandler, g),
        l_capture = True\<rparr>,
      \<lparr>l_target = Window, l_event = ''scroll'', l_handler = (ScrollHandler, g),
        l_capture = False\<rparr>,
      \<lparr>l_target = Window, l_event = ''resize'', l_handler = (ResizeHandler, g),
        l_capture = False\<rparr>,
      \<lparr>l_target = Document, l_event = ''visibilitychange'',
        l_handler = (VisibilityHandler, g), l_capture = False\<rparr>,
      \<lparr>l_target = Window, l_event = ''error'', l_handler = (ErrorHandler, g),
        l_capture = False\<rparr>]"

definition attachCoreEventListeners :: "world \<Rightarrow> world" where
  "attachCoreEventListeners w =
     (let ls = coreListeners (nextClosure w)
      in w\<lparr>domListeners := foldl addEventListener (domListeners w) ls,
            eventListeners := eventListeners w @ ls,
            nextClosure := nextClosure w + 1\<rparr>)"

definition setInterval :: "nat \<Rightarrow> world \<Rightarrow> nat \<times> world" where
  "setInterval period w =
     (nextTimerId w,
      w\<lparr>timers := timers w @ [(nextTimerId w, period)], nextTimerId := nextTimerId w + 1\<rparr>)"

definition clearInterval :: "nat \<Rightarrow> world \<Rightarrow> world" where
  "clearInterval t w = w\<lparr>timers := filter (\<lambda>(i, p). i \<noteq> t) (timers w)\<rparr>"

definition init :: "config \<Rightarrow> world \<Rightarrow> (js_error + unit) \<times> world" where
  "init cfg w =
     (if initialized w then (Inr (), consoleWarn ''[USERQUERY] Already initialized.'' w)
      else
        let w1 = w\<lparr>initialized := True\<rparr>;
            w2 = w1\<lparr>config := assignConfig DEFAULT_CONFIG cfg\<rparr>;
            w3 = w2\<lparr>siteId := cfg_siteId (config w2)\<rparr>
        in case getOrCreateUserId w3 of
             (Inl err, w4) \<Rightarrow> (Inl err, w4)
           | (Inr uid, w4) \<Rightarrow>
               let w5 = w4\<lparr>userId := Some uid\<rparr>;
                   w6 = consoleLog (''[USERQUERY] Initializing with siteId=\"''
                             @ (case siteId w5 of Some v \<Rightarrow> v | None \<Rightarrow> ''null'')
                             @ ''\", userId=\"'' @ uid @ ''\"'') w5;
                   w7 = attachCoreEventListeners w6;
                   w8 = (if readyState (page w7) = ''complete''
                         then trackInternal ''pageLoad'' [(''title'', JStr (title (page w7)))] w7
                         else w7);
                   (t, w9) = setInterval (case cfg_batchInterval (config w8) of
                                            Some p \<Rightarrow> p | None \<Rightarrow> 0) w8
               in (Inr (), w9\<lparr>batchTimer := Some t\<rparr>))"

definition stop :: "world \<Rightarrow> world" where
  "stop w =
     (if \<not> initialized w then consoleWarn ''[USERQUERY] Not initialized or already stopped.'' w
      else
        let w1 = w\<lparr>initialized := False\<rparr>;
            w2 = consoleLog ''[USERQUERY] Stopping. Removing event listeners...'' w1;
            w3 = w2\<lparr>domListeners := foldl removeEventListener (domListeners w2)
                                     (eventListeners w2)\<rparr>;
            w4 = w3\<lparr>eventListeners := []\<rparr>;
            w5 = flushEventBatch w4
        in case batchTimer w5 of
             Some t \<Rightarrow> if t \<noteq> 0 then (clearInterval t w5)\<lparr>batchTimer := None\<rparr> else w5
           | None \<Rightarrow> w5)"

definition trackCustom :: "string \<Rightarrow> jsobject \<Rightarrow> world \<Rightarrow> world" where
  "trackCustom eventName data w =
     (if \<not> initialized w
      then consoleWarn ''[USERQUERY] Not initialized. Cannot track custom events.'' w
      else trackInternal eventName data w)"

section \<open>Sample inputs\<close>

definition button_go :: node where
  "button_go = ElementNode \<lparr>tagName = ''BUTTON'', elem_id = PStr ''go'', className = PStr [],
     attributes = [''id'' \<mapsto> ''go''], textContent = ''Go''\<rparr>"

text \<open>A button whose text is surrounded by white space: two spaces, \<open>Go\<close>, a line feed.\<close>

definition button_padded :: node where
  "button_padded = ElementNode \<lparr>tagName = ''BUTTON'', elem_id = PStr [], className = PStr [],
     attributes = Map.empty, textContent = ''  Go'' @ [CHR 0x0A]\<rparr>"

text \<open>\<open><constructor></constructor>\<close>: an unknown HTML element without attributes or text.\<close>

definition constructor_el :: node where
  "constructor_el = ElementNode \<lparr>tagName = ''CONSTRUCTOR'', elem_id = PStr [],
     className = PStr [], attributes = Map.empty, textContent = []\<rparr>"

text \<open>Elements named \<open>__proto__\<close> and \<open>count\<close>, as \<open>document.createElement\<close> makes them.\<close>

definition proto_el :: node where
  "proto_el = ElementNode \<lparr>tagName = ''__PROTO__'', elem_id = PStr [], className = PStr [],
     attributes = Map.empty, textContent = []\<rparr>"

definition count_el :: node where
  "count_el = ElementNode \<lparr>tagName = ''COUNT'', elem_id = PStr [], className = PStr [],
     attributes = Map.empty, textContent = []\<rparr>"

text \<open>
  Two \<open><svg>\<close> elements whose only content is white space (a line feed and two
  spaces): one without a \<open>class\<close> attribute, one with \<open>class="icon"\<close>. The \<open>className\<close>
  of both is an \<open>SVGAnimatedString\<close> object.
\<close>

definition svg_plain :: element where
  "svg_plain = \<lparr>tagName = ''svg'', elem_id = PStr [],
     className = PObj ''[object SVGAnimatedString]'', attributes = Map.empty,
     textContent = [CHR 0x0A, CHR '' '', CHR '' '']\<rparr>"

definition svg_icon :: element where
  "svg_icon = \<lparr>tagName = ''svg'', elem_id = PStr [],
     className = PObj ''[object SVGAnimatedString]'', attributes = [''class'' \<mapsto> ''icon''],
     textContent = [CHR 0x0A, CHR '' '', CHR '' '']\<rparr>"

text \<open>The document itself, the target of a click event dispatched on \<open>document\<close>.\<close>

definition document_node :: node where
  "document_node = OtherNode ''#document''"

definition sample_page :: page where
  "sample_page = \<lparr>nowISO = ''2024-01-01T00:00:00.000Z'', href = ''https://example.org/'',
     userAgent = ''UA'', screenWidth = 1920, screenHeight = 1080, language = ''en'',
     referrer = [], readyState = ''loading'', title = ''Home''\<rparr>"

text \<open>The module right after it has been loaded, in a browser with \<open>crypto.randomUUID\<close>.\<close>

definition world0 :: world where
  "world0 = \<lparr>initialized = False, siteId = None, userId = None,
     config = \<lparr>cfg_siteId = None, cfg_batchInterval = None\<rparr>,
     eventListeners = [], eventBatch = [], batchTimer = None, zenMapping = empty_registry,
     console = [], stored_uid = None, storageReadable = True, storageWritable = True,
     crypto = CryptoObject (Some ''123e4567-e89b-42d3-a456-426614174000'') None,
     domListeners = [], nextClosure = 0, timers = [], nextTimerId = 1,
     requests = [], pending = 0, page = sample_page\<rparr>"

definition sample_config :: config where
  "sample_config = \<lparr>cfg_siteId = Some ''abc'', cfg_batchInterval = None\<rparr>"

text \<open>\<open>world0\<close> after \<open>USERQUERY.init({siteId: "abc"})\<close>.\<close>

definition active0 :: world where
  "active0 = world0\<lparr>initialized := True, siteId := Some ''abc'',
     userId := Some ''123e4567-e89b-42d3-a456-426614174000'',
     config := \<lparr>cfg_siteId = Some ''abc'', cfg_batchInterval = Some 5000\<rparr>,
     eventListeners := coreListeners 0, batchTimer := Some 1,
     console := [Log ''[USERQUERY] Initializing with siteId=\"abc\", userId=\"123e4567-e89b-42d3-a456-426614174000\"''],
     stored_uid := Some ''123e4567-e89b-42d3-a456-426614174000'',
     domListeners := coreListeners 0, nextClosure := 1, timers := [(1, 5000)],
     nextTimerId := 2\<rparr>"

section \<open>Properties of fnv32a\<close>

lemma word_toInt32: "(word_of_int (toInt32 x) :: 32 word) = word_of_int x"
  by (simp add: toInt32_def Let_def word_of_int_eq_iff take_bit_eq_mod)

lemma word_js_xor:
  "(word_of_int (js_xor a b) :: 32 word) = word_of_int a XOR word_of_int b"
  by (simp add: js_xor_def word_toInt32 flip: word_wi_log_defs)

lemma word_js_shl:
  "n < 32 \<Longrightarrow> (word_of_int (js_shl a n) :: 32 word) = word_of_int a * 2 ^ n"
  by (simp add: js_shl_def word_toInt32 wi_hom_syms)

text \<open>
  The five shifts and the addition are, modulo \<open>2 ^ 32\<close>, one multiplication by
  \<open>1 + 2 + 2 ^ 4 + 2 ^ 7 + 2 ^ 8 + 2 ^ 24 = 0x01000193\<close>.
\<close>

lemma word_fnv_step:
  "(word_of_int (fnv_step h c) :: 32 word) = (word_of_int h XOR word_of_int c) * 0x01000193"
  by (simp add: fnv_step_def Let_def word_js_shl word_js_xor algebra_simps flip: wi_hom_syms)

lemma nat_toUint32: "nat (toUint32 x) = unat (word_of_int x :: 32 word)"
  by (simp add: toUint32_def unat_eq_nat_uint uint_word_of_int)

lemma word_fnv_loop:
  "(word_of_int (fnv_loop str i h) :: 32 word) =
     foldl (\<lambda>h c. (h XOR of_nat (of_char c)) * 0x01000193) (word_of_int h) (drop i str)"
proof (induction str i h rule: fnv_loop.induct)
  case (1 str i hash)
  show ?case
  proof (cases "i < length str")
    case True
    then have d: "drop i str = str ! i # drop (Suc i) str"
      by (simp add: Cons_nth_drop_Suc)
    from True 1 show ?thesis
      by (subst fnv_loop.simps) (simp add: d word_fnv_step charCodeAt_def)
  next
    case False
    then show ?thesis
      by (subst fnv_loop.simps) simp
  qed
qed

text \<open>
  JavaScript numbers are doubles. Every value \<open>hash\<close> takes is an integer of magnitude
  below \<open>2 ^ 53\<close>, so the additions of the loop are exact and \<^typ>\<open>int\<close> models them.
\<close>

lemma toInt32_range: "- (2 ^ 31) \<le> toInt32 x \<and> toInt32 x < 2 ^ 31"
proof -
  define m where "m = x mod 2 ^ 32"
  have "0 \<le> m" "m < 2 ^ 32"
    by (simp_all add: m_def)
  then show ?thesis
    unfolding toInt32_def Let_def m_def [symmetric] by auto
qed

lemma toInt32_signed: "toInt32 x = signed_take_bit 31 x"
proof -
  have "signed_take_bit 31 (toInt32 x) = signed_take_bit 31 x"
    by (simp add: toInt32_def Let_def signed_take_bit_eq_iff_take_bit_eq take_bit_eq_mod)
  moreover have "signed_take_bit 31 (toInt32 x) = toInt32 x"
    using toInt32_range [of x] by (simp add: signed_take_bit_int_eq_self_iff)
  ultimately show ?thesis by simp
qed

lemma signed_take_bit_XOR:
  "signed_take_bit n (a XOR b) = signed_take_bit n a XOR signed_take_bit n (b :: int)"
  by (rule bit_eqI) (auto simp: bit_signed_take_bit_iff bit_xor_iff)

lemma js_xor_range: "- (2 ^ 31) \<le> js_xor a b \<and> js_xor a b < 2 ^ 31"
proof -
  have "js_xor a b = signed_take_bit 31 (a XOR b)"
    by (simp add: js_xor_def toInt32_signed signed_take_bit_XOR)
  then show ?thesis
    using signed_take_bit_int_less_exp [of 31 "a XOR b"]
      signed_take_bit_int_greater_eq_minus_exp [of 31 "a XOR b"]
    by simp
qed

lemma js_shl_range: "- (2 ^ 31) \<le> js_shl a n \<and> js_shl a n < 2 ^ 31"
  using toInt32_range [of "toInt32 a * 2 ^ (n mod 32)"] by (simp add: js_shl_def)

lemma fnv_step_exact: "- (2 ^ 53) < fnv_step h c \<and> fnv_step h c < 2 ^ 53"
  using js_xor_range [of h c] js_shl_range [of "js_xor h c" 1] js_shl_range [of "js_xor h c" 4]
    js_shl_range [of "js_xor h c" 7] js_shl_range [of "js_xor h c" 8]
    js_shl_range [of "js_xor h c" 24]
  by (simp add: fnv_step_def Let_def)

lemma value36_digit36: "d < 36 \<Longrightarrow> value36 (digit36 d) = d"
  by (simp add: value36_def digit36_def)

lemma parseBase36_snoc: "parseBase36 (s @ [c]) = 36 * parseBase36 s + value36 c"
  by (simp add: parseBase36_def)

lemma parseBase36_toString36: "parseBase36 (toString36 n) = n"
proof (induction n rule: toString36.induct)
  case (1 n)
  show ?case
  proof (cases "n < 36")
    case True
    then show ?thesis
      by (subst toString36.simps) (simp add: parseBase36_def value36_digit36)
  next
    case False
    with 1 show ?thesis
      by (subst toString36.simps) (simp add: parseBase36_snoc value36_digit36)
  qed
qed

text \<open>
  Claim C5. \<open>fnv32a\<close> is a function of its input string alone. Its loop, written with
  JavaScript's 32-bit XOR and shifts and an unbounded addition, computes the 32-bit
  FNV-1a hash: seed \<open>0x811c9dc5\<close>, each character code XORed in and the result
  multiplied by the FNV prime modulo \<open>2 ^ 32\<close>. The value returned is the base-36
  numeral of that unsigned 32-bit hash (reading the numeral back gives the hash), and
  on the test strings \<open>""\<close>, \<open>"a"\<close> and \<open>"foobar"\<close> it is the numeral of the published
  FNV-1a vectors \<open>0x811c9dc5\<close>, \<open>0xe40c292c\<close> (rendered \<open>1r9wi7g\<close>) and \<open>0xbf9cf968\<close>.
\<close>

theorem fnv32a_is_fnv1a_base36:
  "fnv32a str = toString36 (unat (fnv1a_reference str))
   \<and> parseBase36 (fnv32a str) = unat (fnv1a_reference str)
   \<and> parseBase36 (fnv32a str) < 2 ^ 32
   \<and> fnv32a [] = toString36 0x811c9dc5
   \<and> fnv32a ''a'' = toString36 0xe40c292c
   \<and> fnv32a ''a'' = ''1r9wi7g''
   \<and> fnv32a ''foobar'' = toString36 0xbf9cf968"
proof -
  have ref: "fnv32a s = toString36 (unat (fnv1a_reference s))" for s
    by (simp add: fnv32a_def nat_toUint32 word_fnv_loop fnv1a_reference_def)
  have bound: "unat (fnv1a_reference str) < 2 ^ 32"
    using unsigned_less [of "fnv1a_reference str", where ?'a = nat] by simp
  have v0: "unat (fnv1a_reference []) = 0x811c9dc5"
    by (simp add: fnv1a_reference_def)
  have v1: "unat (fnv1a_reference ''a'') = 0xe40c292c"
    by (simp add: fnv1a_reference_def)
  have v2: "unat (fnv1a_reference ''foobar'') = 0xbf9cf968"
    by (simp add: fnv1a_reference_def)
  have s1: "toString36 0xe40c292c = ''1r9wi7g''"
    by (simp add: toString36.simps digit36_def char_of_eq_iff take_bit_eq_mod)
  show ?thesis
    using bound by (simp add: ref parseBase36_toString36 v0 v1 v2 s1)
qed

section \<open>Evaluating the model on concrete inputs\<close>

lemmas eval_string = toLowerCase_def lowerChar_def trim_def isWhiteSpace_def
  char_of_eq_iff take_bit_eq_mod

lemmas eval_hash = fnv32a_def nat_toUint32 word_fnv_loop toString36.simps digit36_def
  char_of_eq_iff take_bit_eq_mod

lemmas eval_signature = generateElementSignature_def getAttribute_def truthy_def
  interpolate_def Let_def

lemma sig_button_go: "generateElementSignature (Some button_go) = Some ''button|id:go|text:Go''"
  by (simp add: eval_signature button_go_def eval_string)

lemma sig_constructor_el:
  "generateElementSignature (Some constructor_el) = Some ''constructor''"
  by (simp add: eval_signature constructor_el_def eval_string)

lemma hash_constructor: "fnv32a ''constructor'' = ''1v8x8wf''"
  by (simp add: eval_hash)

section \<open>Properties of trim\<close>

text \<open>
  \<open>trim\<close> removes exactly the white space at both ends: a text that is white space,
  then a body that neither starts nor ends with white space, then white space, is
  trimmed to the body; a text of white space only is trimmed to the empty string.
\<close>

lemma trim_body:
  assumes "\<forall>c\<in>set pre. isWhiteSpace c" "\<forall>c\<in>set post. isWhiteSpace c"
    "body \<noteq> []" "\<not> isWhiteSpace (hd body)" "\<not> isWhiteSpace (last body)"
  shows "trim (pre @ body @ post) = body"
proof -
  have 1: "dropWhile isWhiteSpace (pre @ body @ post) = body @ post"
  proof -
    have "dropWhile isWhiteSpace (pre @ body @ post) = dropWhile isWhiteSpace (body @ post)"
      using assms(1) by (intro dropWhile_append2) simp
    also have "\<dots> = body @ post"
      using assms(3,4) by (cases body) simp_all
    finally show ?thesis .
  qed
  have 2: "dropWhile isWhiteSpace (rev (body @ post)) = rev body"
  proof -
    have "dropWhile isWhiteSpace (rev post @ rev body) = dropWhile isWhiteSpace (rev body)"
      using assms(2) by (intro dropWhile_append2) simp
    also have "\<dots> = rev body"
      using assms(3,5) by (cases "rev body") (simp_all add: last_rev [symmetric] hd_rev)
    finally show ?thesis by simp
  qed
  show ?thesis
    by (simp only: trim_def 1 2 rev_rev_ident)
qed

lemma trim_blank:
  assumes "\<forall>c\<in>set s. isWhiteSpace c"
  shows "trim s = []"
proof -
  have d: "dropWhile isWhiteSpace s = []"
    using assms by (simp add: dropWhile_eq_Nil_conv)
  show ?thesis
    unfolding trim_def d by simp
qed

lemma trim_examples:
  "trim (''  Go'' @ [CHR 0x0A]) = ''Go''"
  "trim ''a b'' = ''a b''"
  "trim [CHR 0x0A, CHR '' '', CHR '' ''] = []"
  "trim [CHR 0x09, CHR ''x'', CHR 0xA0] = ''x''"
  by (simp_all add: trim_def isWhiteSpace_def)

section \<open>Properties of generateElementSignature\<close>

lemma generateElementSignature_null: "generateElementSignature None = None"
  by (simp add: generateElementSignature_def)

lemma generateElementSignature_other_node:
  "generateElementSignature (Some (OtherNode nodeName)) = None"
  by (simp add: generateElementSignature_def)

lemma generateElementSignature_no_tag:
  "tagName el = [] \<Longrightarrow> generateElementSignature (Some (ElementNode el)) = None"
  by (simp add: generateElementSignature_def)

lemma generateElementSignature_element:
  assumes "tagName el \<noteq> []"
  shows "generateElementSignature (Some (ElementNode el)) =
     Some (join ''|''
       ([toLowerCase (tagName el)]
        @ (if truthy (elem_id el) then [''id:'' @ interpolate (elem_id el)] else [])
        @ (if truthy (className el) then [''class:'' @ interpolate (className el)] else [])
        @ prefixed_token ''name:'' (attributes el ''name'')
        @ prefixed_token ''type:'' (attributes el ''type'')
        @ text_token (textContent el)))"
proof -
  have n: "(case x of None \<Rightarrow> ps | Some v \<Rightarrow> ps @ prefixed_token p (Some v))
             = ps @ prefixed_token p x" for ps p x
    by (simp add: prefixed_token_def split: option.splits)
  have i: "(if v \<noteq> [] then ps @ [p @ v] else ps) = ps @ prefixed_token p (Some v)" for ps p v
    by (simp add: prefixed_token_def)
  have o: "(if truthy q then ps @ [p @ interpolate q] else ps)
             = ps @ (if truthy q then [p @ interpolate q] else [])" for ps p q
    by simp
  have t: "(if trim x \<noteq> [] \<and> length (trim x) < 50 then ps @ [''text:'' @ trim x] else ps)
             = ps @ text_token x" for ps x
    by (simp add: text_token_def)
  show ?thesis
    unfolding generateElementSignature_def Let_def getAttribute_def i o t n
    using assms by simp
qed

text \<open>
  For an element whose \<open>id\<close> and \<open>className\<close> are strings, the signature is the
  specification's token sequence joined by \<open>|\<close>.
\<close>

lemma generateElementSignature_strings:
  assumes "tagName el \<noteq> []" "elem_id el = PStr ident" "className el = PStr cls"
  shows "generateElementSignature (Some (ElementNode el)) =
     Some (join ''|''
       (signature_tokens (tagName el) ident cls (attributes el ''name'')
          (attributes el ''type'') (textContent el)))"
  using assms
  by (simp add: generateElementSignature_element signature_tokens_def prefixed_token_def
      truthy_def interpolate_def)

lemma generateElementSignature_static:
  assumes "tagName a = tagName b" "elem_id a = elem_id b" "className a = className b"
    "attributes a ''name'' = attributes b ''name''"
    "attributes a ''type'' = attributes b ''type''" "textContent a = textContent b"
  shows "generateElementSignature (Some (ElementNode a))
           = generateElementSignature (Some (ElementNode b))"
proof (cases "tagName a = []")
  case True
  with assms(1) show ?thesis
    by (simp add: generateElementSignature_no_tag)
next
  case False
  with assms show ?thesis
    by (simp add: generateElementSignature_element)
qed

text \<open>The text token is made of the trimmed text, and only of a text shorter than 50.\<close>

lemma sig_button_padded:
  "generateElementSignature (Some button_padded) = Some ''button|text:Go''"
  by (simp add: eval_signature button_padded_def eval_string)

lemma text_token_length:
  "length (trim txt) = 49 \<Longrightarrow> text_token txt = [''text:'' @ trim txt]"
  "length (trim txt) = 50 \<Longrightarrow> text_token txt = []"
  "trim txt = [] \<Longrightarrow> text_token txt = []"
  by (auto simp: text_token_def)

text \<open>
  Claim C4, at an SVG element. \<open>svg_plain\<close> has no \<open>class\<close> attribute and only white
  space as text, yet its signature is not \<open>svg\<close>: \<open>element.className\<close> is an object, so
  the test passes and the token \<open>class:[object SVGAnimatedString]\<close> is emitted. \<open>svg_icon\<close>
  has \<open>class="icon"\<close> and gets the same signature, without \<open>class:icon\<close>. The
  specification's tokens for the two elements are \<open>svg\<close> and \<open>svg\<close>, \<open>class:icon\<close>.
\<close>

theorem svg_element_gets_object_class_token:
  "attributes svg_plain ''class'' = None
   \<and> generateElementSignature (Some (ElementNode svg_plain))
       = Some ''svg|class:[object SVGAnimatedString]''
   \<and> join ''|'' (signature_tokens (tagName svg_plain) [] []
         (attributes svg_plain ''name'') (attributes svg_plain ''type'')
         (textContent svg_plain)) = ''svg''
   \<and> attributes svg_icon ''class'' = Some ''icon''
   \<and> generateElementSignature (Some (ElementNode svg_icon))
       = Some ''svg|class:[object SVGAnimatedString]''
   \<and> join ''|'' (signature_tokens (tagName svg_icon) [] ''icon''
         (attributes svg_icon ''name'') (attributes svg_icon ''type'')
         (textContent svg_icon)) = ''svg|class:icon''"
  by (simp add: eval_signature svg_plain_def svg_icon_def signature_tokens_def
      prefixed_token_def text_token_def eval_string)

section \<open>Properties of generateStableZenId and labelElement\<close>

lemma join_nonempty: "x \<noteq> [] \<Longrightarrow> join sep (x # xs) \<noteq> []"
  by (cases xs) simp_all

lemma signature_nonempty:
  assumes "generateElementSignature (Some el) = Some s"
  shows "s \<noteq> []"
proof (cases el)
  case (OtherNode nodeName)
  with assms show ?thesis
    by (simp add: generateElementSignature_other_node)
next
  case (ElementNode e)
  with assms have tag: "tagName e \<noteq> []"
    by (auto simp: generateElementSignature_no_tag)
  from assms show ?thesis
    unfolding ElementNode generateElementSignature_element [OF tag]
    using tag by (auto simp: join_nonempty toLowerCase_def)
qed

lemma toString10_2: "toString10 (Suc (Suc 0)) = ''2''"
  by (simp add: toString10.simps digit36_def char_of_eq_iff take_bit_eq_mod)

lemma zen_request_new:
  assumes "generateElementSignature (Some el) = Some s" "own reg s = None"
    "s \<notin> set objectPrototypeKeys" "\<not> (protoCount reg \<and> s = ''count'')"
  shows "generateStableZenId (Some el) reg =
     Inr (Some (expected_id (fnv32a s) 1),
          reg\<lparr>own := (own reg)(s \<mapsto> \<lparr>entry_id = ''zen-'' @ fnv32a s, entry_count = 1\<rparr>)\<rparr>)"
  using assms signature_nonempty [OF assms(1)]
  by (auto simp: generateStableZenId_def expected_id_def Let_def)

lemma zen_request_again:
  assumes "generateElementSignature (Some el) = Some s" "own reg s = Some e"
    "1 \<le> entry_count e"
  shows "generateStableZenId (Some el) reg =
     Inr (Some (expected_id (fnv32a s) (entry_count e + 1)),
          reg\<lparr>own := (own reg)(s \<mapsto> e\<lparr>entry_count := entry_count e + 1\<rparr>)\<rparr>)"
  using assms signature_nonempty [OF assms(1)]
  by (auto simp: generateStableZenId_def expected_id_def toString10_2 Let_def)

lemma zen_requests_again:
  assumes "\<forall>el\<in>set els. generateElementSignature (Some el) = Some s"
    "own reg s = Some e" "1 \<le> entry_count e"
  shows "zen_requests reg els =
     Inr (map (\<lambda>n. Some (expected_id (fnv32a s) n))
            [entry_count e + 1 ..< entry_count e + 1 + length els],
          reg\<lparr>own := (own reg)(s \<mapsto> e\<lparr>entry_count := entry_count e + length els\<rparr>)\<rparr>)"
  using assms
proof (induction els arbitrary: reg e)
  case Nil
  then have "(own reg)(s \<mapsto> e) = own reg"
    by (simp add: fun_upd_idem)
  then show ?case by simp
next
  case (Cons el els)
  let ?e' = "e\<lparr>entry_count := entry_count e + 1\<rparr>"
  let ?reg' = "reg\<lparr>own := (own reg)(s \<mapsto> ?e')\<rparr>"
  have step: "generateStableZenId (Some el) reg =
      Inr (Some (expected_id (fnv32a s) (entry_count e + 1)), ?reg')"
    using Cons.prems by (simp add: zen_request_again)
  have rest: "zen_requests ?reg' els =
      Inr (map (\<lambda>n. Some (expected_id (fnv32a s) n))
             [entry_count ?e' + 1 ..< entry_count ?e' + 1 + length els],
           ?reg'\<lparr>own := (own ?reg')(s \<mapsto> ?e'\<lparr>entry_count := entry_count ?e' + length els\<rparr>)\<rparr>)"
    using Cons.prems by (intro Cons.IH) simp_all
  have l: "[entry_count e + 1 ..< entry_count e + 1 + length (el # els)] =
      (entry_count e + 1) # [entry_count ?e' + 1 ..< entry_count ?e' + 1 + length els]"
    by (subst upt_rec) simp
  have "zen_requests reg (el # els) =
      Inr (Some (expected_id (fnv32a s) (entry_count e + 1))
             # map (\<lambda>n. Some (expected_id (fnv32a s) n))
                 [entry_count ?e' + 1 ..< entry_count ?e' + 1 + length els],
           ?reg'\<lparr>own := (own ?reg')(s \<mapsto> ?e'\<lparr>entry_count := entry_count ?e' + length els\<rparr>)\<rparr>)"
    by (simp only: zen_requests.simps step rest sum.case prod.case)
  also have "\<dots> =
      Inr (map (\<lambda>n. Some (expected_id (fnv32a s) n))
             [entry_count e + 1 ..< entry_count e + 1 + length (el # els)],
           reg\<lparr>own := (own reg)(s \<mapsto> e\<lparr>entry_count := entry_count e + length (el # els)\<rparr>)\<rparr>)"
    unfolding l by simp
  finally show ?case .
qed

lemma zen_requests_fresh_signature:
  assumes "els \<noteq> []" "\<forall>el\<in>set els. generateElementSignature (Some el) = Some s"
    "own reg s = None" "s \<notin> set objectPrototypeKeys" "\<not> (protoCount reg \<and> s = ''count'')"
  shows "zen_requests reg els =
     Inr (map (\<lambda>n. Some (expected_id (fnv32a s) n)) [1 ..< Suc (length els)],
          reg\<lparr>own := (own reg)
                 (s \<mapsto> \<lparr>entry_id = ''zen-'' @ fnv32a s, entry_count = length els\<rparr>)\<rparr>)"
proof -
  from assms(1) obtain el rest where els: "els = el # rest"
    by (cases els) auto
  let ?e = "\<lparr>entry_id = ''zen-'' @ fnv32a s, entry_count = 1\<rparr>"
  let ?reg' = "reg\<lparr>own := (own reg)(s \<mapsto> ?e)\<rparr>"
  have first: "generateStableZenId (Some el) reg = Inr (Some (expected_id (fnv32a s) 1), ?reg')"
    using assms els by (simp add: zen_request_new)
  have rest: "zen_requests ?reg' rest =
      Inr (map (\<lambda>n. Some (expected_id (fnv32a s) n))
             [entry_count ?e + 1 ..< entry_count ?e + 1 + length rest],
           ?reg'\<lparr>own := (own ?reg')(s \<mapsto> ?e\<lparr>entry_count := entry_count ?e + length rest\<rparr>)\<rparr>)"
    using assms(2) els by (intro zen_requests_again) simp_all
  have l: "[1 ..< Suc (length els)] = 1 # [entry_count ?e + 1 ..< entry_count ?e + 1 + length rest]"
    by (subst upt_rec) (simp add: els)
  have "zen_requests reg (el # rest) =
      Inr (Some (expected_id (fnv32a s) 1)
             # map (\<lambda>n. Some (expected_id (fnv32a s) n))
                 [entry_count ?e + 1 ..< entry_count ?e + 1 + length rest],
           ?reg'\<lparr>own := (own ?reg')(s \<mapsto> ?e\<lparr>entry_count := entry_count ?e + length rest\<rparr>)\<rparr>)"
    by (simp only: zen_requests.simps first rest sum.case prod.case)
  also have "\<dots> =
      Inr (map (\<lambda>n. Some (expected_id (fnv32a s) n)) [1 ..< Suc (length els)],
           reg\<lparr>own := (own reg)
                  (s \<mapsto> \<lparr>entry_id = ''zen-'' @ fnv32a s, entry_count = length els\<rparr>)\<rparr>)"
    unfolding l by (simp add: els)
  finally show ?thesis
    by (simp only: els)
qed

text \<open>
  A request for the signature \<open>__proto__\<close> stores \<open>count\<close> on \<open>Object.prototype\<close>;
  from then on a request for the signature \<open>count\<close>, which a fresh registry serves
  normally, throws.
\<close>

lemma sig_proto_el: "generateElementSignature (Some proto_el) = Some ''__proto__''"
  by (simp add: eval_signature proto_el_def eval_string)

lemma sig_count_el: "generateElementSignature (Some count_el) = Some ''count''"
  by (simp add: eval_signature count_el_def eval_string)

lemma zen_proto_then_count:
  "zen_requests empty_registry [count_el] = Inr ([Some (''zen-'' @ fnv32a ''count'')],
      empty_registry\<lparr>own := [''count'' \<mapsto>
         \<lparr>entry_id = ''zen-'' @ fnv32a ''count'', entry_count = 1\<rparr>]\<rparr>)"
  "zen_requests empty_registry [proto_el, count_el] = Inl TypeError"
  by (simp_all add: generateStableZenId_def sig_proto_el sig_count_el empty_registry_def
      objectPrototypeKeys_def Let_def)

text \<open>
  Claim C3, at the signature \<open>constructor\<close>. The element \<open><constructor>\<close> without
  attributes and text has the signature \<open>constructor\<close>, a name the empty registry
  object inherits from \<open>Object.prototype\<close>. The first request does not return
  \<open>zen-1v8x8wf\<close> (\<open>zen-\<close> and the hash) but \<open>zen-1v8x8wf-NaN\<close>, the second request
  returns the same id again, and the registry never gets an entry for the signature.
\<close>

theorem zen_inherited_signature_gets_NaN:
  "generateElementSignature (Some constructor_el) = Some ''constructor''
   \<and> expected_id (fnv32a ''constructor'') 1 = ''zen-1v8x8wf''
   \<and> generateStableZenId (Some constructor_el) empty_registry
       = Inr (Some ''zen-1v8x8wf-NaN'', empty_registry)
   \<and> zen_requests empty_registry [constructor_el, constructor_el]
       = Inr ([Some ''zen-1v8x8wf-NaN'', Some ''zen-1v8x8wf-NaN''], empty_registry)
   \<and> own empty_registry ''constructor'' = None"
proof -
  have one: "generateStableZenId (Some constructor_el) empty_registry
      = Inr (Some ''zen-1v8x8wf-NaN'', empty_registry)"
    by (simp add: generateStableZenId_def sig_constructor_el hash_constructor
        empty_registry_def objectPrototypeKeys_def)
  show ?thesis
    by (simp add: one sig_constructor_el hash_constructor expected_id_def)
      (simp add: empty_registry_def)
qed

text \<open>
  What holds of inputs without a signature and of labelled elements: without a
  signature (a \<open>null\<close> input, a node that is no element, an element with an empty tag
  name) \<open>generateStableZenId\<close> returns \<open>null\<close> and the registry it was given; an
  element with an empty tag name, and an element that already has \<open>data-zenid\<close>, come
  back from \<open>labelElement\<close> as they were, with the registry as it was.
\<close>

lemma generateStableZenId_no_signature:
  "generateElementSignature n = None \<Longrightarrow> generateStableZenId n reg = Inr (None, reg)"
  by (simp add: generateStableZenId_def)

lemma labelElement_no_tag:
  "tagName el = [] \<Longrightarrow> labelElement (ElementNode el) reg = Inr (ElementNode el, reg)"
  by (simp add: labelElement_def hasAttribute_def generateStableZenId_no_signature
      generateElementSignature_no_tag)

lemma labelElement_labelled:
  "attributes el ''data-zenid'' \<noteq> None \<Longrightarrow>
   labelElement (ElementNode el) reg = Inr (ElementNode el, reg)"
  by (auto simp: labelElement_def hasAttribute_def)

lemma labelElement_other_node: "labelElement (OtherNode nodeName) reg = Inl TypeError"
  by (simp add: labelElement_def hasAttribute_def)

text \<open>
  Claim C10, at the document node. The node has no tag name, its signature is \<open>null\<close>
  and \<open>generateStableZenId\<close> returns \<open>null\<close> with the registry unchanged; but
  \<open>labelElement\<close> does not return: its first step calls \<open>el.hasAttribute\<close>, which the
  document does not have, and the TypeError leaves the function.
\<close>

theorem labelElement_throws_on_document_node:
  "generateElementSignature (Some document_node) = None
   \<and> generateStableZenId (Some document_node) empty_registry = Inr (None, empty_registry)
   \<and> hasAttribute document_node ''data-zenid'' = Inl TypeError
   \<and> labelElement document_node empty_registry = Inl TypeError"
  by (simp add: document_node_def generateElementSignature_other_node
      generateStableZenId_no_signature labelElement_other_node hasAttribute_def)

section \<open>The sample worlds\<close>

lemma world0_fields:
  "initialized world0 = False" "siteId world0 = None" "userId world0 = None"
  "eventListeners world0 = []" "eventBatch world0 = []" "batchTimer world0 = None"
  "zenMapping world0 = empty_registry" "console world0 = []" "stored_uid world0 = None"
  "storageReadable world0 = True" "storageWritable world0 = True"
  "crypto world0 = CryptoObject (Some ''123e4567-e89b-42d3-a456-426614174000'') None"
  "domListeners world0 = []" "nextClosure world0 = 0" "timers world0 = []"
  "nextTimerId world0 = 1" "requests world0 = []" "pending world0 = 0"
  "page world0 = sample_page"
  by (simp_all add: world0_def)

lemma attach_fresh: "foldl addEventListener [] (coreListeners g) = coreListeners g"
  by (simp add: coreListeners_def addEventListener_def)

lemma getOrCreateUserId_world0:
  "getOrCreateUserId (world0\<lparr>initialized := a, config := b, siteId := c\<rparr>)
     = (Inr ''123e4567-e89b-42d3-a456-426614174000'',
        world0\<lparr>initialized := a, config := b, siteId := c,
          stored_uid := Some ''123e4567-e89b-42d3-a456-426614174000''\<rparr>)"
  by (simp add: getOrCreateUserId_def world0_fields)

lemma readyState_sample_page: "readyState sample_page = ''loading''"
  by (simp add: sample_page_def)

lemma init_world0: "init sample_config world0 = (Inr (), active0)"
  by (simp add: init_def world0_fields getOrCreateUserId_world0 sample_config_def active0_def
      assignConfig_def DEFAULT_CONFIG_def consoleLog_def attachCoreEventListeners_def
      setInterval_def readyState_sample_page Let_def attach_fresh)

lemma active0_fields:
  "initialized active0 = True" "siteId active0 = Some ''abc''"
  "userId active0 = Some ''123e4567-e89b-42d3-a456-426614174000''"
  "eventListeners active0 = coreListeners 0" "eventBatch active0 = []"
  "batchTimer active0 = Some 1" "domListeners active0 = coreListeners 0"
  "nextClosure active0 = 1" "timers active0 = [(1, 5000)]" "nextTimerId active0 = 2"
  "requests active0 = []" "pending active0 = 0" "page active0 = sample_page"
  "storageReadable active0 = True"
  "stored_uid active0 = Some ''123e4567-e89b-42d3-a456-426614174000''"
  by (simp_all add: active0_def world0_fields)

section \<open>Properties of getOrCreateUserId\<close>

text \<open>\<open>getOrCreateUserId\<close> changes at most the console and the stored identifier.\<close>

lemma getOrCreateUserId_frame:
  "initialized (snd (getOrCreateUserId w)) = initialized w"
  "config (snd (getOrCreateUserId w)) = config w"
  "siteId (snd (getOrCreateUserId w)) = siteId w"
  "eventListeners (snd (getOrCreateUserId w)) = eventListeners w"
  "eventBatch (snd (getOrCreateUserId w)) = eventBatch w"
  "domListeners (snd (getOrCreateUserId w)) = domListeners w"
  "nextClosure (snd (getOrCreateUserId w)) = nextClosure w"
  "timers (snd (getOrCreateUserId w)) = timers w"
  "nextTimerId (snd (getOrCreateUserId w)) = nextTimerId w"
  "page (snd (getOrCreateUserId w)) = page w"
  by (simp_all add: getOrCreateUserId_def consoleWarn_def
      split: option.splits crypto_env.splits sum.splits)

lemma getOrCreateUserId_usable:
  assumes "crypto w = CryptoObject r g" "r \<noteq> None \<or> g \<noteq> None"
  shows "\<exists>uid. fst (getOrCreateUserId w) = Inr uid"
  using assms
  by (auto simp: getOrCreateUserId_def consoleWarn_def split: option.splits)

lemma digit36_0: "digit36 0 = CHR ''0''"
  by (simp add: digit36_def char_of_eq_iff take_bit_eq_mod)

lemma toString16_byte:
  assumes "n < 256"
  shows "padStart2 (toString16 n) = [digit36 (n div 16), digit36 (n mod 16)]"
proof (cases "n < 16")
  case True
  then show ?thesis
    by (subst toString16.simps) (simp add: padStart2_def digit36_0)
next
  case False
  with assms have "n div 16 < 16" by simp
  then have "toString16 (n div 16) = [digit36 (n div 16)]"
    by (subst toString16.simps) simp
  with False show ?thesis
    by (subst toString16.simps) (simp add: padStart2_def)
qed

lemma isHexDigit_table:
  "list_all (\<lambda>d. isHexDigit (digit36 d)) [0, 1, 2, 3, 4, 5, 6, 7, 8, 9, 10, 11, 12, 13, 14, 15]"
  by (simp add: isHexDigit_def digit36_def char_of_eq_iff take_bit_eq_mod)

lemma isHexDigit_digit36:
  assumes "d < 16"
  shows "isHexDigit (digit36 d)"
proof -
  from assms have "d \<in> set [0, 1, 2, 3, 4, 5, 6, 7, 8, 9, 10, 11, 12, 13, 14, 15]"
    by (simp del: One_nat_def) arith
  with isHexDigit_table show ?thesis
    unfolding list_all_iff by blast
qed

lemma hex_byte:
  "\<exists>c d. padStart2 (toString16 (unat (b :: 8 word))) = [c, d] \<and> isHexDigit c \<and> isHexDigit d"
proof -
  have "unat b < 256"
    using unsigned_less [of b, where ?'a = nat] by simp
  then show ?thesis
    by (simp add: toString16_byte isHexDigit_digit36)
qed


lemma hex_concat:
  "length (concat (map (\<lambda>b. padStart2 (toString16 (unat (b :: 8 word)))) bs)) = 2 * length bs
   \<and> list_all isHexDigit (concat (map (\<lambda>b. padStart2 (toString16 (unat b))) bs))"
proof (induction bs)
  case Nil
  then show ?case by simp
next
  case (Cons b bs)
  obtain c d where "padStart2 (toString16 (unat b)) = [c, d]" "isHexDigit c" "isHexDigit d"
    using hex_byte [of b] by blast
  with Cons show ?case by simp
qed

lemma uuidShaped_groups:
  assumes "length hex = 32" "list_all isHexDigit hex"
  shows "uuidShaped (substr hex 0 8 @ ''-'' @ substr hex 8 4 @ ''-'' @ substr hex 12 4 @ ''-''
           @ substr hex 16 4 @ ''-'' @ substr hex 20 12)"
proof -
  have h: "list_all isHexDigit (substr hex i n)" for i n
    using assms(2) unfolding substr_def list_all_iff
    by (meson in_set_dropD in_set_takeD)
  have l: "length (substr hex 0 8) = 8" "length (substr hex 8 4) = 4"
    "length (substr hex 12 4) = 4" "length (substr hex 16 4) = 4"
    "length (substr hex 20 12) = 12"
    using assms(1) by (simp_all add: substr_def)
  show ?thesis
    unfolding uuidShaped_def
    by (simp add: l h nth_append)
qed

lemma fallbackId_uuidShaped: "uuidShaped (fallbackId bytes)"
proof -
  have "length (map bytes [0..<16]) = 16" by simp
  then show ?thesis
    unfolding fallbackId_def Let_def
    using hex_concat [of "map bytes [0..<16]"]
    by (intro uuidShaped_groups) simp_all
qed


text \<open>Where the identifier comes from when \<open>crypto\<close> is an object.\<close>

lemma getOrCreateUserId_sources:
  assumes "crypto w = CryptoObject r g" "r \<noteq> None \<or> g \<noteq> None"
  shows "\<exists>uid. fst (getOrCreateUserId w) = Inr uid
           \<and> (uid = (case r of Some u \<Rightarrow> u | None \<Rightarrow> fallbackId (the g))
               \<or> (storageReadable w \<and> stored_uid w = Some uid \<and> uid \<noteq> []))"
  using assms
  by (auto simp: getOrCreateUserId_def consoleWarn_def split: option.splits)

text \<open>
  With \<open>localStorage\<close> unavailable for reading and for writing, both failures are
  caught: two warnings, and the identifier is returned all the same.
\<close>

lemma getOrCreateUserId_without_storage:
  assumes "\<not> storageReadable w" "\<not> storageWritable w" "crypto w = CryptoObject (Some uuid) g"
  shows "getOrCreateUserId w =
     (Inr uuid,
      w\<lparr>console := console w
           @ [Warn ''[USERQUERY] localStorage not available. Using in-memory ID.'',
              Warn ''[USERQUERY] Unable to persist userId to localStorage.'']\<rparr>)"
  using assms by (simp add: getOrCreateUserId_def consoleWarn_def)

text \<open>
  Claim C6, where \<open>crypto\<close> is absent and no identifier is stored. With \<open>crypto\<close>
  \<open>undefined\<close>, \<open>getOrCreateUserId\<close> throws a TypeError (\<open>crypto.getRandomValues\<close> on
  \<open>undefined\<close>); with \<open>crypto\<close> not declared it throws a ReferenceError; with a
  \<open>crypto\<close> object that has neither method it throws a TypeError. The error leaves
  \<open>init\<close>, which has already set \<open>_initialized\<close> and has registered no listener yet.
\<close>

theorem getOrCreateUserId_throws_without_crypto:
  "getOrCreateUserId (world0\<lparr>crypto := CryptoNullish\<rparr>)
     = (Inl TypeError, world0\<lparr>crypto := CryptoNullish\<rparr>)
   \<and> getOrCreateUserId (world0\<lparr>crypto := CryptoUndeclared\<rparr>)
       = (Inl ReferenceError, world0\<lparr>crypto := CryptoUndeclared\<rparr>)
   \<and> getOrCreateUserId (world0\<lparr>crypto := CryptoObject None None\<rparr>)
       = (Inl TypeError, world0\<lparr>crypto := CryptoObject None None\<rparr>)
   \<and> fst (init sample_config (world0\<lparr>crypto := CryptoNullish\<rparr>)) = Inl TypeError
   \<and> initialized (snd (init sample_config (world0\<lparr>crypto := CryptoNullish\<rparr>)))
   \<and> eventListeners (snd (init sample_config (world0\<lparr>crypto := CryptoNullish\<rparr>))) = []"
  by (simp add: getOrCreateUserId_def init_def world0_fields Let_def)

section \<open>Properties of trackInternal\<close>

lemma map_of_spread:
  "distinct (map fst data) \<Longrightarrow> map_of (spread obj data) = map_of obj ++ map_of data"
proof (induction data arbitrary: obj)
  case Nil
  then show ?case by (simp add: spread_def)
next
  case (Cons p data)
  obtain k v where p: "p = (k, v)" by (cases p)
  from Cons.prems p have k: "k \<notin> dom (map_of data)" and d: "distinct (map fst data)"
    by (auto simp: dom_map_of_conv_image_fst)
  have "map_of (spread obj (p # data)) = map_of (spread (AList.update k v obj) data)"
    by (simp add: spread_def p)
  also have "\<dots> = (map_of obj)(k \<mapsto> v) ++ map_of data"
    by (simp only: Cons.IH [OF d] update_conv')
  also have "\<dots> = map_of obj ++ map_of (p # data)"
    using k by (simp add: p map_add_upd_left)
  finally show ?case .
qed

lemma trackInternal_payload:
  "trackInternal eventName data w
     = w\<lparr>eventBatch := eventBatch w @ [spread (base_context eventName w) data]\<rparr>"
  by (simp add: trackInternal_def base_context_def)

text \<open>
  Claim C9. \<open>trackInternal\<close> appends exactly one event to the buffer: the base context
  (\<open>eventName\<close>, \<open>timestamp\<close>, \<open>siteId\<close>, \<open>userId\<close>, \<open>url\<close>, \<open>userAgent\<close>,
  \<open>screenSize\<close>, \<open>language\<close>, \<open>referrer\<close>) merged with the caller's data object. Under
  every key the event holds the caller's value when the caller supplied that key, and
  the base value otherwise; this includes \<open>eventName\<close>, which a caller's \<open>eventName\<close>
  key replaces. \<open>trackCustom\<close> on a started agent is \<open>trackInternal\<close>. The data object
  is an object, so its keys are distinct.
\<close>

theorem trackInternal_merges_caller_data_over_base:
  assumes "distinct (map fst data)"
  shows "eventBatch (trackInternal eventName data w)
           = eventBatch w @ [spread (base_context eventName w) data]
    \<and> map fst (base_context eventName w)
        = [''eventName'', ''timestamp'', ''siteId'', ''userId'', ''url'', ''userAgent'',
           ''screenSize'', ''language'', ''referrer'']
    \<and> map_of (spread (base_context eventName w) data) key
        = (case map_of data key of
             Some v \<Rightarrow> Some v
           | None \<Rightarrow> map_of (base_context eventName w) key)
    \<and> map_of (spread (base_context eventName w) data) ''eventName''
        = (case map_of data ''eventName'' of
             Some v \<Rightarrow> Some v
           | None \<Rightarrow> Some (JStr eventName))
    \<and> (initialized w \<longrightarrow> trackCustom eventName data w = trackInternal eventName data w)"
proof -
  have m: "map_of (spread (base_context eventName w) data) k
        = (case map_of data k of
             Some v \<Rightarrow> Some v
           | None \<Rightarrow> map_of (base_context eventName w) k)" for k
    using assms by (simp add: map_of_spread map_add_def)
  have e: "map_of (base_context eventName w) ''eventName'' = Some (JStr eventName)"
    by (simp add: base_context_def)
  have n: "map_of (spread (base_context eventName w) data) ''eventName''
        = (case map_of data ''eventName'' of
             Some v \<Rightarrow> Some v
           | None \<Rightarrow> Some (JStr eventName))"
    by (simp only: m e)
  have f: "map fst (base_context eventName w)
        = [''eventName'', ''timestamp'', ''siteId'', ''userId'', ''url'', ''userAgent'',
           ''screenSize'', ''language'', ''referrer'']"
    by (simp add: base_context_def)
  have a: "eventBatch (trackInternal eventName data w)
           = eventBatch w @ [spread (base_context eventName w) data]"
    by (simp add: trackInternal_payload)
  have t: "initialized w \<longrightarrow> trackCustom eventName data w = trackInternal eventName data w"
    by (simp add: trackCustom_def)
  show ?thesis
    by (intro conjI a f m n t)
qed

theorem trackInternal_merges_caller_data_over_base_witness:
  "distinct (map fst [(''eventName'', JStr ''spoofed''), (''x'', JNum 1)])
   \<and> eventBatch (trackInternal ''click'' [(''eventName'', JStr ''spoofed''), (''x'', JNum 1)]
         active0)
       = [spread (base_context ''click'' active0)
            [(''eventName'', JStr ''spoofed''), (''x'', JNum 1)]]
   \<and> map_of (spread (base_context ''click'' active0)
         [(''eventName'', JStr ''spoofed''), (''x'', JNum 1)]) ''siteId'' = Some (JStr ''abc'')
   \<and> map_of (spread (base_context ''click'' active0)
         [(''eventName'', JStr ''spoofed''), (''x'', JNum 1)]) ''eventName''
       = Some (JStr ''spoofed'')
   \<and> initialized active0
   \<and> trackCustom ''click'' [(''eventName'', JStr ''spoofed''), (''x'', JNum 1)] active0
       = trackInternal ''click'' [(''eventName'', JStr ''spoofed''), (''x'', JNum 1)] active0"
proof -
  have d: "distinct (map fst [(''eventName'', JStr ''spoofed''), (''x'', JNum (1::int))])"
    by simp
  have b: "map_of (base_context ''click'' active0) ''siteId'' = Some (JStr ''abc'')"
    by (simp add: base_context_def active0_fields)
  show ?thesis
    using trackInternal_merges_caller_data_over_base
      [OF d, of "''click''" active0 "''siteId''"]
    by (simp add: b active0_fields)
qed

section \<open>Properties of flushEventBatch\<close>


lemma flushEventBatch_nonempty:
  "eventBatch w \<noteq> [] \<Longrightarrow>
   flushEventBatch w =
     w\<lparr>requests := requests w @ [\<lparr>req_userId = userId w, req_siteId = siteId w,
                                   req_events = eventBatch w\<rparr>],
       pending := pending w + 1\<rparr>"
  by (simp add: flushEventBatch_def)







lemma trackInternal_fields:
  "eventBatch (trackInternal n d w) = eventBatch w @ [spread (base_context n w) d]"
  "requests (trackInternal n d w) = requests w"
  "pending (trackInternal n d w) = pending w"
  "userId (trackInternal n d w) = userId w"
  "siteId (trackInternal n d w) = siteId w"
  by (simp_all add: trackInternal_payload)

lemma base_context_cong:
  "page w' = page w \<Longrightarrow> siteId w' = siteId w \<Longrightarrow> userId w' = userId w \<Longrightarrow>
   base_context n w' = base_context n w"
  by (simp add: base_context_def)

text \<open>
  Whatever is recorded between a flush and the settling of its delivery is gone when the
  delivery settles: the request carries the buffer as it was at the flush, and the
  buffer is empty afterwards.
\<close>

lemma settle_discards_events_recorded_meanwhile:
  assumes "eventBatch w \<noteq> []"
  shows "\<exists>w''. run [Flush, Track eventName data, Settle d] w = Some w''
           \<and> eventBatch w'' = []
           \<and> requests w''
               = requests w @ [\<lparr>req_userId = userId w, req_siteId = siteId w,
                                  req_events = eventBatch w\<rparr>]"
  using assms
  by (cases d)
    (simp_all add: flushEventBatch_nonempty trackInternal_payload fetch_then_def
      fetch_catch_def consoleWarn_def)

text \<open>
  Claim C2, on the started agent. An event is recorded and a flush hands it to the
  transport; a second event is recorded while that delivery is pending and is in the
  buffer; the delivery settles (by a response, or by a network error) and its callback
  empties the buffer; the next flush finds nothing to send. The only request ever made
  carries the first event alone: the second event is in no request and no longer in
  the buffer.
\<close>

theorem events_recorded_during_delivery_are_lost:
  "(\<exists>w. run [Track ''first'' [], Flush, Track ''second'' []] active0 = Some w
        \<and> map (\<lambda>e. map_of e ''eventName'') (eventBatch w)
            = [Some (JStr ''first''), Some (JStr ''second'')]
        \<and> pending w = 1)
   \<and> (\<exists>w. run [Track ''first'' [], Flush, Track ''second'' [], Settle (Response True), Flush]
           active0 = Some w
        \<and> map req_events (requests w) = [[spread (base_context ''first'' active0) []]]
        \<and> eventBatch w = [] \<and> pending w = 0)
   \<and> (\<exists>w. run [Track ''first'' [], Flush, Track ''second'' [], Settle NetworkError, Flush]
           active0 = Some w
        \<and> map req_events (requests w) = [[spread (base_context ''first'' active0) []]]
        \<and> eventBatch w = [] \<and> pending w = 0)"
  by (simp add: trackInternal_payload flushEventBatch_def fetch_then_def fetch_catch_def
      consoleWarn_def active0_fields base_context_cong)
    (simp add: base_context_def spread_def)


section \<open>Properties of init, stop and trackCustom\<close>

text \<open>
  Claim C7. \<open>init\<close> on an agent that is already initialized returns normally with the
  world as it was except for one more warning on the console; so do \<open>stop\<close> and
  \<open>trackCustom\<close> on an agent that is not initialized (never started, or stopped).
  Configuration, listeners (the module's list and the registrations on the page),
  timers, buffer, requests and registry are all part of the world and so unchanged.
\<close>

theorem misuse_calls_only_warn:
  "(initialized w \<longrightarrow>
      init cfg w
        = (Inr (), w\<lparr>console := console w @ [Warn ''[USERQUERY] Already initialized.'']\<rparr>))
   \<and> (\<not> initialized w' \<longrightarrow>
        stop w'
          = w'\<lparr>console := console w'
                   @ [Warn ''[USERQUERY] Not initialized or already stopped.'']\<rparr>
        \<and> trackCustom eventName data w'
            = w'\<lparr>console := console w'
                     @ [Warn ''[USERQUERY] Not initialized. Cannot track custom events.'']\<rparr>)"
  by (simp add: init_def stop_def trackCustom_def consoleWarn_def)

theorem misuse_calls_only_warn_witness:
  "initialized active0
   \<and> init sample_config active0
       = (Inr (), active0\<lparr>console := console active0
                                @ [Warn ''[USERQUERY] Already initialized.'']\<rparr>)
   \<and> \<not> initialized world0
   \<and> stop world0
       = world0\<lparr>console := [Warn ''[USERQUERY] Not initialized or already stopped.'']\<rparr>
   \<and> trackCustom ''signup'' [(''plan'', JStr ''pro'')] world0
       = world0\<lparr>console := [Warn ''[USERQUERY] Not initialized. Cannot track custom events.'']\<rparr>"
  using misuse_calls_only_warn
    [of active0 sample_config world0 "''signup''" "[(''plan'', JStr ''pro'')]"]
  by (simp add: active0_fields world0_fields)

lemma init_started:
  assumes "\<not> initialized w"
    and "fst (getOrCreateUserId
               (w\<lparr>initialized := True, config := assignConfig DEFAULT_CONFIG cfg,
                  siteId := cfg_siteId (assignConfig DEFAULT_CONFIG cfg)\<rparr>)) = Inr uid"
  shows "fst (init cfg w) = Inr ()"
    and "initialized (snd (init cfg w))"
    and "eventListeners (snd (init cfg w)) = eventListeners w @ coreListeners (nextClosure w)"
    and "domListeners (snd (init cfg w))
           = foldl addEventListener (domListeners w) (coreListeners (nextClosure w))"
    and "batchTimer (snd (init cfg w)) = Some (nextTimerId w)"
    and "timers (snd (init cfg w))
           = timers w @ [(nextTimerId w,
                          case cfg_batchInterval (assignConfig DEFAULT_CONFIG cfg) of
                            Some p \<Rightarrow> p | None \<Rightarrow> 0)]"
proof -
  let ?w3 = "w\<lparr>initialized := True, config := assignConfig DEFAULT_CONFIG cfg,
                siteId := cfg_siteId (assignConfig DEFAULT_CONFIG cfg)\<rparr>"
  obtain w4 where g: "getOrCreateUserId ?w3 = (Inr uid, w4)"
    using assms(2) by (cases "getOrCreateUserId ?w3") simp
  have f: "initialized w4 = True" "config w4 = assignConfig DEFAULT_CONFIG cfg"
    "eventListeners w4 = eventListeners w" "domListeners w4 = domListeners w"
    "nextClosure w4 = nextClosure w" "timers w4 = timers w" "nextTimerId w4 = nextTimerId w"
    using getOrCreateUserId_frame [of ?w3] by (simp_all add: g)
  have i: "init cfg w =
      (let w5 = w4\<lparr>userId := Some uid\<rparr>;
           w6 = consoleLog (''[USERQUERY] Initializing with siteId=\"''
                            @ (case siteId w5 of Some v \<Rightarrow> v | None \<Rightarrow> ''null'')
                            @ ''\", userId=\"'' @ uid @ ''\"'') w5;
           w7 = attachCoreEventListeners w6;
           w8 = (if readyState (page w7) = ''complete''
                 then trackInternal ''pageLoad'' [(''title'', JStr (title (page w7)))] w7
                 else w7);
           (t, w9) = setInterval (case cfg_batchInterval (config w8) of
                                    Some p \<Rightarrow> p | None \<Rightarrow> 0) w8
       in (Inr (), w9\<lparr>batchTimer := Some t\<rparr>))"
    using assms(1) by (simp add: init_def g Let_def)
  show "fst (init cfg w) = Inr ()"
    and "initialized (snd (init cfg w))"
    and "eventListeners (snd (init cfg w)) = eventListeners w @ coreListeners (nextClosure w)"
    and "domListeners (snd (init cfg w))
           = foldl addEventListener (domListeners w) (coreListeners (nextClosure w))"
    and "batchTimer (snd (init cfg w)) = Some (nextTimerId w)"
    and "timers (snd (init cfg w))
           = timers w @ [(nextTimerId w,
                          case cfg_batchInterval (assignConfig DEFAULT_CONFIG cfg) of
                            Some p \<Rightarrow> p | None \<Rightarrow> 0)]"
    by (simp_all add: i Let_def setInterval_def attachCoreEventListeners_def consoleLog_def
        trackInternal_def f)
qed

lemma stop_fields:
  assumes "initialized w"
  shows "\<not> initialized (stop w)" "eventListeners (stop w) = []"
    "crypto (stop w) = crypto w" "nextClosure (stop w) = nextClosure w"
    "nextTimerId (stop w) = nextTimerId w"
    "domListeners (stop w) = foldl removeEventListener (domListeners w) (eventListeners w)"
  using assms
  by (simp_all add: stop_def Let_def flushEventBatch_def clearInterval_def consoleLog_def
      split: option.splits)

lemma set_foldl_addEventListener:
  "set (foldl addEventListener xs ls) = set xs \<union> set ls"
  by (induction ls arbitrary: xs) (auto simp: addEventListener_def)

text \<open>
  Claim C8, as amended. \<open>stop\<close> on a started agent leaves it not initialized, the
  state it was in before the first start, with an empty listener list. Where the user
  identifier can be obtained (\<open>crypto\<close> is an object with \<open>randomUUID\<close> or
  \<open>getRandomValues\<close>), a start call on the stopped agent returns normally and the
  agent is initialized again: its listener list is seven new listeners, all of them
  registered on the page, and a new interval timer runs and is the agent's flush timer.
\<close>

theorem stopped_agent_starts_again:
  assumes "initialized w" and "crypto w = CryptoObject r g" and "r \<noteq> None \<or> g \<noteq> None"
  shows "\<not> initialized (stop w)
    \<and> eventListeners (stop w) = []
    \<and> fst (init cfg (stop w)) = Inr ()
    \<and> initialized (snd (init cfg (stop w)))
    \<and> eventListeners (snd (init cfg (stop w))) = coreListeners (nextClosure w)
    \<and> set (coreListeners (nextClosure w)) \<subseteq> set (domListeners (snd (init cfg (stop w))))
    \<and> batchTimer (snd (init cfg (stop w))) = Some (nextTimerId w)
    \<and> (nextTimerId w,
        case cfg_batchInterval (assignConfig DEFAULT_CONFIG cfg) of Some p \<Rightarrow> p | None \<Rightarrow> 0)
       \<in> set (timers (snd (init cfg (stop w))))"
proof -
  note s = stop_fields [OF assms(1)]
  let ?w3 = "(stop w)\<lparr>initialized := True, config := assignConfig DEFAULT_CONFIG cfg,
                siteId := cfg_siteId (assignConfig DEFAULT_CONFIG cfg)\<rparr>"
  have "crypto ?w3 = CryptoObject r g"
    using assms(2) s(3) by simp
  then obtain uid where u: "fst (getOrCreateUserId ?w3) = Inr uid"
    using getOrCreateUserId_usable [OF _ assms(3)] by blast
  note i = init_started [OF s(1) u]
  show ?thesis
    using s(1) s(2) i by (simp add: s set_foldl_addEventListener)
qed

lemma stop_active0:
  "initialized (stop active0) = False" "domListeners (stop active0) = []"
  "timers (stop active0) = []" "eventListeners (stop active0) = []"
  "batchTimer (stop active0) = None" "nextClosure (stop active0) = 1"
  "nextTimerId (stop active0) = 2" "storageReadable (stop active0) = True"
  "stored_uid (stop active0) = Some ''123e4567-e89b-42d3-a456-426614174000''"
  by (simp_all add: stop_def Let_def flushEventBatch_def clearInterval_def consoleLog_def
      active0_fields coreListeners_def removeEventListener_def)

text \<open>
  Claim C8 as stated fails: on the sample page, start, stop and a second start leave
  the agent initialized, with the seven listeners of the second start registered and
  the timer of the second start running.
\<close>

theorem second_start_after_stop_is_active:
  "init sample_config world0 = (Inr (), active0)
   \<and> \<not> initialized (stop active0)
   \<and> domListeners (stop active0) = []
   \<and> timers (stop active0) = []
   \<and> fst (init sample_config (stop active0)) = Inr ()
   \<and> initialized (snd (init sample_config (stop active0)))
   \<and> eventListeners (snd (init sample_config (stop active0))) = coreListeners 1
   \<and> domListeners (snd (init sample_config (stop active0))) = coreListeners 1
   \<and> batchTimer (snd (init sample_config (stop active0))) = Some 2
   \<and> timers (snd (init sample_config (stop active0))) = [(2, 5000)]"
proof -
  let ?w3 = "(stop active0)\<lparr>initialized := True,
       config := assignConfig DEFAULT_CONFIG sample_config,
       siteId := cfg_siteId (assignConfig DEFAULT_CONFIG sample_config)\<rparr>"
  have u: "fst (getOrCreateUserId ?w3) = Inr ''123e4567-e89b-42d3-a456-426614174000''"
    by (simp add: getOrCreateUserId_def stop_active0)
  have n: "\<not> initialized (stop active0)"
    by (simp add: stop_active0)
  note i = init_started [OF n u]
  show ?thesis
    by (simp add: init_world0 i stop_active0 attach_fresh)
      (simp add: assignConfig_def DEFAULT_CONFIG_def sample_config_def)
qed

theorem stopped_agent_starts_again_witness:
  "initialized active0
   \<and> crypto active0 = CryptoObject (Some ''123e4567-e89b-42d3-a456-426614174000'') None
   \<and> \<not> initialized (stop active0)
   \<and> fst (init sample_config (stop active0)) = Inr ()
   \<and> initialized (snd (init sample_config (stop active0)))
   \<and> eventListeners (snd (init sample_config (stop active0))) = coreListeners 1
   \<and> batchTimer (snd (init sample_config (stop active0))) = Some 2
   \<and> (2, 5000) \<in> set (timers (snd (init sample_config (stop active0))))"
proof -
  have a: "initialized active0"
    and c: "crypto active0 = CryptoObject (Some ''123e4567-e89b-42d3-a456-426614174000'') None"
    by (simp_all add: active0_def world0_fields)
  have p: "(case cfg_batchInterval (assignConfig DEFAULT_CONFIG sample_config) of
              Some p \<Rightarrow> p | None \<Rightarrow> 0) = 5000"
    by (simp add: assignConfig_def DEFAULT_CONFIG_def sample_config_def)
  show ?thesis
    using stopped_agent_starts_again [OF a c, of sample_config] a c
    by (simp add: active0_fields p)
qed


end
